theory Spec2Isabelle
  imports Main "HOL-Library.Word"
begin

unbundle bit_operations_syntax

section \<open>The records of \<open>nvdla::ILoadable\<close> (umd/core/include/nvdla/ILoadable.h)\<close>

text \<open>
  The header declares the record tables of a loadable and the pure virtual accessors
  over them. The structs are embedded as records. Several structs have members of the
  same name (\<open>id\<close>, \<open>size\<close>, \<open>offset\<close>, \<open>mem_id\<close>), and \<open>id\<close> and \<open>size\<close> are
  constants of HOL, so every field carries a prefix naming its struct:
  \<open>ver_\<close> Version, \<open>mle_\<close> MemoryListEntry, \<open>ele_\<close> EventListEntry,
  \<open>tle_\<close> TaskListEntry, \<open>sle_\<close> SubmitListEntry, \<open>ale_\<close> AddressListEntry,
  \<open>tde_\<close> TensorDescListEntry, \<open>blob_\<close> Blob; the members of the C structs written
  by \<open>toC\<close> and read by \<open>fromC\<close> carry the same prefix with a leading \<open>c\<close>.
\<close>

type_synonym NvU8 = "8 word"
type_synonym NvU16 = "16 word"
type_synonym NvU32 = "32 word"
type_synonym NvU64 = "64 word"

text \<open>\<open>NvS16\<close> is a 16-bit word read in two's complement (\<open>sint\<close>).\<close>

type_synonym NvS16 = "16 word"

subsection \<open>The macros of nvdla/c/NvDlaLoadable.h\<close>

text \<open>
  The enumerators of \<open>Interface\<close>, \<open>MemoryDomain\<close>, \<open>MemoryFlags\<close> and \<open>EventOp\<close> are
  defined by macros of nvdla/c/NvDlaLoadable.h, which is not among the sources. Their
  values are a parameter: a record of the eleven macros the header names.
\<close>

record NvDlaLoadableMacros =
  NVDLA_LOADABLE_INTERFACE_NONE :: NvU32
  NVDLA_LOADABLE_INTERFACE_DLA1 :: NvU32
  NVDLA_LOADABLE_MEMORY_DOMAIN_SYSMEM :: NvU8
  NVDLA_LOADABLE_MEMORY_DOMAIN_SRAM :: NvU8
  NVDLA_LOADABLE_MEMORY_FLAGS_NONE :: NvU8
  NVDLA_LOADABLE_MEMORY_FLAGS_ALLOC :: NvU8
  NVDLA_LOADABLE_MEMORY_FLAGS_SET :: NvU8
  NVDLA_LOADABLE_MEMORY_FLAGS_INPUT :: NvU8
  NVDLA_LOADABLE_MEMORY_FLAGS_OUTPUT :: NvU8
  NVDLA_LOADABLE_EVENT_OP_WAIT :: NvU8
  NVDLA_LOADABLE_EVENT_OP_SIGNAL :: NvU8

datatype Interface = Interface_NONE | Interface_DLA1

subsection \<open>Version\<close>

record Version =
  ver_major :: NvU8
  ver_minor :: NvU8
  ver_sub_minor :: NvU8

text \<open>
  \<open>NvDlaLoadableVersion\<close> and the other C structs are declared in
  nvdla/c/NvDlaLoadable.h. Each is embedded with exactly the members the header's
  conversions assign, every member at the type of the field assigned to it.
\<close>

record NvDlaLoadableVersion =
  cver_major :: NvU8
  cver_minor :: NvU8
  cver_subMinor :: NvU8

text \<open>\<open>Version(NvU8 maj, NvU8 min, NvU8 sub)\<close> and \<open>Version()\<close>.\<close>

definition Version_init :: "NvU8 \<Rightarrow> NvU8 \<Rightarrow> NvU8 \<Rightarrow> Version" where
  "Version_init maj mn sub = \<lparr>ver_major = maj, ver_minor = mn, ver_sub_minor = sub\<rparr>"

definition Version_default :: Version where
  "Version_default = \<lparr>ver_major = 0, ver_minor = 0, ver_sub_minor = 0\<rparr>"

text \<open>
  \<open>void toC(NvDlaLoadableVersion &c) const\<close>: the struct passed by reference is the
  second argument, and the struct after the three assignments is the result.
\<close>

definition Version_toC :: "Version \<Rightarrow> NvDlaLoadableVersion \<Rightarrow> NvDlaLoadableVersion" where
  "Version_toC v c =
     c\<lparr>cver_major := ver_major v, cver_minor := ver_minor v, cver_subMinor := ver_sub_minor v\<rparr>"

subsection \<open>MemoryListEntry\<close>

record MemoryListEntry =
  mle_id :: NvU16
  mle_size :: NvU64
  mle_alignment :: NvU32
  mle_domain :: NvU8
  mle_flags :: NvU8
  mle_bind_id :: NvU16
  mle_tensor_desc_id :: NvU16
  mle_contents :: "string list"
  mle_offsets :: "NvU64 list"

text \<open>The static accessors of the struct: each returns an enumerator as an \<open>NvU8\<close>.\<close>

definition domain_sysmem :: "NvDlaLoadableMacros \<Rightarrow> NvU8" where
  "domain_sysmem K = NVDLA_LOADABLE_MEMORY_DOMAIN_SYSMEM K"

definition flags_alloc :: "NvDlaLoadableMacros \<Rightarrow> NvU8" where
  "flags_alloc K = NVDLA_LOADABLE_MEMORY_FLAGS_ALLOC K"

definition flags_set :: "NvDlaLoadableMacros \<Rightarrow> NvU8" where
  "flags_set K = NVDLA_LOADABLE_MEMORY_FLAGS_SET K"

definition flags_input :: "NvDlaLoadableMacros \<Rightarrow> NvU8" where
  "flags_input K = NVDLA_LOADABLE_MEMORY_FLAGS_INPUT K"

definition flags_output :: "NvDlaLoadableMacros \<Rightarrow> NvU8" where
  "flags_output K = NVDLA_LOADABLE_MEMORY_FLAGS_OUTPUT K"

text \<open>\<open>MemoryListEntry()\<close>: every scalar member 0, both vectors empty.\<close>

definition MemoryListEntry_default :: MemoryListEntry where
  "MemoryListEntry_default =
     \<lparr>mle_id = 0, mle_size = 0, mle_alignment = 0, mle_domain = 0, mle_flags = 0,
      mle_bind_id = 0, mle_tensor_desc_id = 0, mle_contents = [], mle_offsets = []\<rparr>"

text \<open>
  \<open>MemoryListEntry(const MemoryListEntry &o)\<close>: the member initialiser list, one
  member after the other. A \<open>std::vector\<close> is embedded as the list of its elements, so
  \<open>contents(o.contents)\<close> and \<open>offsets(o.offsets)\<close>, which copy the elements into
  storage of the new vector's own, are the lists themselves.
\<close>

definition MemoryListEntry_copy :: "MemoryListEntry \<Rightarrow> MemoryListEntry" where
  "MemoryListEntry_copy o' =
     \<lparr>mle_id = mle_id o', mle_size = mle_size o', mle_alignment = mle_alignment o',
      mle_domain = mle_domain o', mle_flags = mle_flags o',
      mle_bind_id = mle_bind_id o',
      mle_tensor_desc_id = mle_tensor_desc_id o',
      mle_contents = mle_contents o',
      mle_offsets = mle_offsets o'\<rparr>"

subsection \<open>EventListEntry\<close>

record EventListEntry =
  ele_id :: NvU16
  ele_target :: NvU16
  ele_op :: NvU8
  ele_val :: NvU32

record NvDlaLoadableEventListEntry =
  cele_id :: NvU16
  cele_target :: NvU16
  cele_op :: NvU8
  cele_val :: NvU32

definition op_wait :: "NvDlaLoadableMacros \<Rightarrow> NvU8" where
  "op_wait K = NVDLA_LOADABLE_EVENT_OP_WAIT K"

definition op_signal :: "NvDlaLoadableMacros \<Rightarrow> NvU8" where
  "op_signal K = NVDLA_LOADABLE_EVENT_OP_SIGNAL K"

definition EventListEntry_toC ::
  "EventListEntry \<Rightarrow> NvDlaLoadableEventListEntry \<Rightarrow> NvDlaLoadableEventListEntry" where
  "EventListEntry_toC e c =
     c\<lparr>cele_id := ele_id e, cele_target := ele_target e, cele_op := ele_op e,
       cele_val := ele_val e\<rparr>"

subsection \<open>TaskListEntry and SubmitListEntry\<close>

record TaskListEntry =
  tle_id :: NvU16
  tle_interface :: NvU32
  tle_instance :: NvS16
  tle_preactions :: "NvU16 list"
  tle_postactions :: "NvU16 list"
  tle_address_list :: "NvU16 list"

definition interface_NONE :: "NvDlaLoadableMacros \<Rightarrow> NvU32" where
  "interface_NONE K = NVDLA_LOADABLE_INTERFACE_NONE K"

definition interface_DLA1 :: "NvDlaLoadableMacros \<Rightarrow> NvU32" where
  "interface_DLA1 K = NVDLA_LOADABLE_INTERFACE_DLA1 K"

definition instance_ANY :: NvS16 where
  "instance_ANY = - 1"

record SubmitListEntry =
  sle_id :: NvU16
  sle_tasks :: "NvU16 list"

subsection \<open>AddressListEntry\<close>

record AddressListEntry =
  ale_id :: NvU16
  ale_mem_id :: NvU16
  ale_size :: NvU64
  ale_offset :: NvU64

record NvDlaLoadableAddressListEntry =
  cale_id :: NvU16
  cale_memId :: NvU16
  cale_size :: NvU64
  cale_offset :: NvU64

definition AddressListEntry_default :: AddressListEntry where
  "AddressListEntry_default = \<lparr>ale_id = 0, ale_mem_id = 0, ale_size = 0, ale_offset = 0\<rparr>"

definition AddressListEntry_toC ::
  "AddressListEntry \<Rightarrow> NvDlaLoadableAddressListEntry \<Rightarrow> NvDlaLoadableAddressListEntry" where
  "AddressListEntry_toC a c =
     c\<lparr>cale_id := ale_id a, cale_memId := ale_mem_id a, cale_size := ale_size a,
       cale_offset := ale_offset a\<rparr>"

subsection \<open>TensorDescListEntry\<close>

text \<open>
  \<open>Dims4\<close> and the \<open>UnderlyingType\<close> of \<open>DataFormat\<close>, \<open>DataType\<close>, \<open>DataCategory\<close>,
  \<open>PixelFormat\<close> and \<open>PixelMapping\<close> are declared in nvdla/IType.h, which is not among
  the sources: the type of a component of \<open>Dims4\<close> is the parameter \<open>'i\<close>, the five
  underlying types are the parameters \<open>'f\<close>, \<open>'t\<close>, \<open>'g\<close>, \<open>'p\<close> and \<open>'m\<close>.
\<close>

record 'i Dims4 =
  dims_n :: 'i
  dims_c :: 'i
  dims_h :: 'i
  dims_w :: 'i

record 'i NvDlaDims4 =
  cdims_n :: 'i
  cdims_c :: 'i
  cdims_h :: 'i
  cdims_w :: 'i

record ('i, 'f, 't, 'g, 'p, 'm) TensorDescListEntry =
  tde_id :: NvU16
  tde_mem_id :: NvU16
  tde_size :: NvU64
  tde_offset :: NvU64
  tde_dims :: "'i Dims4"
  tde_data_format :: 'f
  tde_data_type :: 't
  tde_data_category :: 'g
  tde_pixel_format :: 'p
  tde_pixel_mapping :: 'm
  tde_line_stride :: NvU32
  tde_surf_stride :: NvU32
  tde_plane_stride :: NvU32

record ('i, 'f, 't, 'g, 'p, 'm) NvDlaLoadableTensorDescListEntry =
  ctde_id :: NvU16
  ctde_mem_id :: NvU16
  ctde_size :: NvU64
  ctde_offset :: NvU64
  ctde_dims :: "'i NvDlaDims4"
  ctde_dataFormat :: 'f
  ctde_dataType :: 't
  ctde_dataCategory :: 'g
  ctde_pixelFormat :: 'p
  ctde_pixelMapping :: 'm
  ctde_lineStride :: NvU32
  ctde_surfStride :: NvU32
  ctde_planeStride :: NvU32

text \<open>
  \<open>void fromC(const NvDlaLoadableTensorDescListEntry &c)\<close> assigns the members of
  \<open>*this\<close>: the entry before the call is the second argument, the entry after it the
  result.
\<close>

definition TensorDescListEntry_fromC ::
  "('i, 'f, 't, 'g, 'p, 'm) NvDlaLoadableTensorDescListEntry \<Rightarrow>
   ('i, 'f, 't, 'g, 'p, 'm) TensorDescListEntry \<Rightarrow>
   ('i, 'f, 't, 'g, 'p, 'm) TensorDescListEntry" where
  "TensorDescListEntry_fromC c this =
     this\<lparr>tde_id := ctde_id c,
          tde_mem_id := ctde_mem_id c,
          tde_size := ctde_size c,
          tde_offset := ctde_offset c,
          tde_dims := (tde_dims this)\<lparr>dims_n := cdims_n (ctde_dims c),
                                      dims_c := cdims_c (ctde_dims c),
                                      dims_h := cdims_h (ctde_dims c),
                                      dims_w := cdims_w (ctde_dims c)\<rparr>,
          tde_data_format := ctde_dataFormat c,
          tde_data_type := ctde_dataType c,
          tde_data_category := ctde_dataCategory c,
          tde_pixel_format := ctde_pixelFormat c,
          tde_pixel_mapping := ctde_pixelMapping c,
          tde_line_stride := ctde_lineStride c,
          tde_surf_stride := ctde_surfStride c,
          tde_plane_stride := ctde_planeStride c\<rparr>"

text \<open>
  \<open>void toC(NvDlaLoadableTensorDescListEntry &c) const\<close>, assignment by assignment.
  The second one is \<open>c.mem_id = id;\<close> in the source.
\<close>

definition TensorDescListEntry_toC ::
  "('i, 'f, 't, 'g, 'p, 'm) TensorDescListEntry \<Rightarrow>
   ('i, 'f, 't, 'g, 'p, 'm) NvDlaLoadableTensorDescListEntry \<Rightarrow>
   ('i, 'f, 't, 'g, 'p, 'm) NvDlaLoadableTensorDescListEntry" where
  "TensorDescListEntry_toC e c =
     c\<lparr>ctde_id := tde_id e,
       ctde_mem_id := tde_id e,
       ctde_size := tde_size e,
       ctde_offset := tde_offset e,
       ctde_dims := (ctde_dims c)\<lparr>cdims_n := dims_n (tde_dims e),
                                   cdims_c := dims_c (tde_dims e),
                                   cdims_h := dims_h (tde_dims e),
                                   cdims_w := dims_w (tde_dims e)\<rparr>,
       ctde_dataFormat := tde_data_format e,
       ctde_dataType := tde_data_type e,
       ctde_dataCategory := tde_data_category e,
       ctde_pixelFormat := tde_pixel_format e,
       ctde_pixelMapping := tde_pixel_mapping e,
       ctde_lineStride := tde_line_stride e,
       ctde_surfStride := tde_surf_stride e,
       ctde_planeStride := tde_plane_stride e\<rparr>"

subsection \<open>Blob\<close>

record Blob =
  blob_name :: string
  blob_size :: NvU64
  blob_interface :: Interface
  blob_version :: Version

text \<open>
  An entry whose \<open>mem_id\<close> differs from its \<open>id\<close>, at \<open>int\<close> for a component of
  \<open>Dims4\<close> and \<open>NvU8\<close> for the five underlying types, and a wire struct and an entry
  for the two conversions to write into.
\<close>

definition tde_sample :: "(int, NvU8, NvU8, NvU8, NvU8, NvU8) TensorDescListEntry" where
  "tde_sample =
     \<lparr>tde_id = 1, tde_mem_id = 2, tde_size = 1024, tde_offset = 0,
      tde_dims = \<lparr>dims_n = 1, dims_c = 3, dims_h = 16, dims_w = 16\<rparr>,
      tde_data_format = 0, tde_data_type = 0, tde_data_category = 0,
      tde_pixel_format = 0, tde_pixel_mapping = 0,
      tde_line_stride = 64, tde_surf_stride = 1024, tde_plane_stride = 0\<rparr>"

definition ctde_blank :: "(int, NvU8, NvU8, NvU8, NvU8, NvU8) NvDlaLoadableTensorDescListEntry" where
  "ctde_blank =
     \<lparr>ctde_id = 0, ctde_mem_id = 0, ctde_size = 0, ctde_offset = 0,
      ctde_dims = \<lparr>cdims_n = 0, cdims_c = 0, cdims_h = 0, cdims_w = 0\<rparr>,
      ctde_dataFormat = 0, ctde_dataType = 0, ctde_dataCategory = 0,
      ctde_pixelFormat = 0, ctde_pixelMapping = 0,
      ctde_lineStride = 0, ctde_surfStride = 0, ctde_planeStride = 0\<rparr>"

definition tde_blank :: "(int, NvU8, NvU8, NvU8, NvU8, NvU8) TensorDescListEntry" where
  "tde_blank =
     \<lparr>tde_id = 0, tde_mem_id = 0, tde_size = 0, tde_offset = 0,
      tde_dims = \<lparr>dims_n = 0, dims_c = 0, dims_h = 0, dims_w = 0\<rparr>,
      tde_data_format = 0, tde_data_type = 0, tde_data_category = 0,
      tde_pixel_format = 0, tde_pixel_mapping = 0,
      tde_line_stride = 0, tde_surf_stride = 0, tde_plane_stride = 0\<rparr>"

section \<open>The tables of a loadable and the accessors over them\<close>

text \<open>
  \<open>ILoadable\<close> declares its accessors pure virtual and \<open>const\<close>; the classes that
  implement them are not among the sources. What follows is their model.
\<close>

text \<open>
  Modelled from the spec: the names of the six tables, for the locator of an error; the
  header has no such type.
\<close>

datatype Table = MemoryTable | EventTable | TaskTable | AddressTable | TensorDescTable | SubmitTable

text \<open>
  Modelled from the spec: the error kinds of its section 7; no error type is declared in
  the header (\<open>NvDlaError\<close> comes from nvdla/c/NvDlaType.h). \<open>NotFound\<close> carries its
  locator (table and id), \<open>UnresolvedMemory\<close> the task and the missing memory id,
  \<open>UnresolvedEvent\<close> the task and the event id.
\<close>

datatype error =
    NotFound Table NvU16
  | VersionMismatch
  | UnsupportedInterface
  | InvalidRange
  | UnboundInput
  | UnboundOutput
  | UnresolvedMemory NvU16 NvU16
  | UnresolvedEvent NvU16 NvU16
  | AllocationFailure

text \<open>
  Modelled from the spec: the state behind the accessors, which is a member of the
  implementing class. The spec's record tables: the five flat tables, the submit table
  and the blob header, populated once and immutable from then on.
\<close>

record ('i, 'f, 't, 'g, 'p, 'm) Loadable =
  ld_blob :: Blob
  ld_memory_list :: "MemoryListEntry list"
  ld_event_list :: "EventListEntry list"
  ld_task_list :: "TaskListEntry list"
  ld_address_list :: "AddressListEntry list"
  ld_tensor_desc_list :: "('i, 'f, 't, 'g, 'p, 'm) TensorDescListEntry list"
  ld_submit_list :: "SubmitListEntry list"

text \<open>
  Modelled from the spec: the body of \<open>getName\<close> and of the five \<open>getNum...\<close>
  accessors (\<open>count()\<close>; the declared result type is \<open>int\<close>).
\<close>

definition getName :: "('i, 'f, 't, 'g, 'p, 'm) Loadable \<Rightarrow> string" where
  "getName L = blob_name (ld_blob L)"

definition getNumMemoryListEntries :: "('i, 'f, 't, 'g, 'p, 'm) Loadable \<Rightarrow> int" where
  "getNumMemoryListEntries L = int (length (ld_memory_list L))"

definition getNumEventListEntries :: "('i, 'f, 't, 'g, 'p, 'm) Loadable \<Rightarrow> int" where
  "getNumEventListEntries L = int (length (ld_event_list L))"

definition getNumTaskListEntries :: "('i, 'f, 't, 'g, 'p, 'm) Loadable \<Rightarrow> int" where
  "getNumTaskListEntries L = int (length (ld_task_list L))"

definition getNumAddressListEntries :: "('i, 'f, 't, 'g, 'p, 'm) Loadable \<Rightarrow> int" where
  "getNumAddressListEntries L = int (length (ld_address_list L))"

definition getNumTensorDescListEntries :: "('i, 'f, 't, 'g, 'p, 'm) Loadable \<Rightarrow> int" where
  "getNumTensorDescListEntries L = int (length (ld_tensor_desc_list L))"

text \<open>
  Modelled from the spec: \<open>get(id) -> Entry\<close>, the body shared by the five
  \<open>get...ListEntry\<close> accessors. Identifiers are table-local indices; \<open>get\<close> fails with
  \<open>NotFound\<close> if the id is out of the table's declared range, which is \<open>0 .. count - 1\<close>.
\<close>

definition table_get :: "Table \<Rightarrow> 'a list \<Rightarrow> NvU16 \<Rightarrow> error + 'a" where
  "table_get T xs i = (if unat i < length xs then Inr (xs ! unat i) else Inl (NotFound T i))"

text \<open>
  Modelled from the spec: the body of \<open>getMemoryListEntry\<close>. The entry is returned by
  value, which in the source runs the copy constructor of \<open>MemoryListEntry\<close>.
\<close>

definition getMemoryListEntry ::
  "('i, 'f, 't, 'g, 'p, 'm) Loadable \<Rightarrow> NvU16 \<Rightarrow> error + MemoryListEntry" where
  "getMemoryListEntry L mem_id =
     (case table_get MemoryTable (ld_memory_list L) mem_id of
        Inl e \<Rightarrow> Inl e
      | Inr m \<Rightarrow> Inr (MemoryListEntry_copy m))"

text \<open>Modelled from the spec: the body of \<open>getEventListEntry\<close>.\<close>

definition getEventListEntry ::
  "('i, 'f, 't, 'g, 'p, 'm) Loadable \<Rightarrow> NvU16 \<Rightarrow> error + EventListEntry" where
  "getEventListEntry L event_id = table_get EventTable (ld_event_list L) event_id"

text \<open>Modelled from the spec: the body of \<open>getTaskListEntry\<close>.\<close>

definition getTaskListEntry ::
  "('i, 'f, 't, 'g, 'p, 'm) Loadable \<Rightarrow> NvU16 \<Rightarrow> error + TaskListEntry" where
  "getTaskListEntry L task_id = table_get TaskTable (ld_task_list L) task_id"

text \<open>Modelled from the spec: the body of \<open>getAddressListEntry\<close>.\<close>

definition getAddressListEntry ::
  "('i, 'f, 't, 'g, 'p, 'm) Loadable \<Rightarrow> NvU16 \<Rightarrow> error + AddressListEntry" where
  "getAddressListEntry L i = table_get AddressTable (ld_address_list L) i"

text \<open>Modelled from the spec: the body of \<open>getTensorDescListEntry\<close>.\<close>

definition getTensorDescListEntry ::
  "('i, 'f, 't, 'g, 'p, 'm) Loadable \<Rightarrow> NvU16 \<Rightarrow>
   error + ('i, 'f, 't, 'g, 'p, 'm) TensorDescListEntry" where
  "getTensorDescListEntry L i = table_get TensorDescTable (ld_tensor_desc_list L) i"

section \<open>The submitter\<close>

text \<open>
  The header's synopsis of task set exec: check for unbound memory, check for unbound
  events, submit each task. The code that does it is not among the sources; what
  follows models it. What the engines do with a dispatched task, its completion
  included, is outside the model.
\<close>

text \<open>
  Modelled from the spec: the binding state a resolver pass produces (section 4.2):
  per memory id the concrete buffer or unbound, per event id satisfied or unsatisfied,
  and the unsatisfied references keyed by task id (the ids of the memory entries a task
  still misses). Buffers are opaque: their type is the parameter \<open>'b\<close>.
\<close>

record 'b BindingState =
  bs_buffers :: "NvU16 \<Rightarrow> 'b option"
  bs_events :: "NvU16 \<Rightarrow> bool"
  bs_unsatisfied :: "NvU16 \<Rightarrow> NvU16 list"

text \<open>
  Modelled from the spec: one dispatch to the engine dispatcher, an external
  collaborator (\<open>submit(task, engineInstance)\<close>): the task's target interface, its
  instance selector and its id.
\<close>

record Dispatch =
  dsp_interface :: NvU32
  dsp_instance :: NvS16
  dsp_task :: NvU16

text \<open>
  Modelled from the spec: the submitter's state, which is the binding state and the
  dispatches made so far, oldest first.
\<close>

record 'b SubmitterState =
  st_binding :: "'b BindingState"
  st_dispatched :: "Dispatch list"

text \<open>
  Modelled from the spec: the engine queue matching an interface and an instance
  selector, as the dispatches made to it.
\<close>

definition engine_queue :: "'b SubmitterState \<Rightarrow> NvU32 \<Rightarrow> NvS16 \<Rightarrow> NvU16 list" where
  "engine_queue st i n =
     map dsp_task (filter (\<lambda>d. dsp_interface d = i \<and> dsp_instance d = n) (st_dispatched st))"

text \<open>
  Modelled from the spec: the tasks a submit entry names, looked up in the task table in
  list order; a bad id is \<open>NotFound\<close>.
\<close>

fun lookup_tasks ::
  "('i, 'f, 't, 'g, 'p, 'm) Loadable \<Rightarrow> NvU16 list \<Rightarrow> error + (NvU16 \<times> TaskListEntry) list" where
  "lookup_tasks L [] = Inr []"
| "lookup_tasks L (tid # tids) =
     (case getTaskListEntry L tid of
        Inl e \<Rightarrow> Inl e
      | Inr t \<Rightarrow>
          (case lookup_tasks L tids of
             Inl e \<Rightarrow> Inl e
           | Inr ts \<Rightarrow> Inr ((tid, t) # ts)))"

text \<open>
  Modelled from the spec: step (a) of the submitter, section 4.3: verify every task in
  the list has an empty unsatisfied-reference set; if not, fail with \<open>UnresolvedMemory\<close>
  naming the task and the missing memory id.
\<close>

fun check_unsatisfied :: "'b BindingState \<Rightarrow> (NvU16 \<times> TaskListEntry) list \<Rightarrow> error + unit" where
  "check_unsatisfied bs [] = Inr ()"
| "check_unsatisfied bs ((tid, t) # ts) =
     (case bs_unsatisfied bs tid of
        [] \<Rightarrow> check_unsatisfied bs ts
      | m # ms \<Rightarrow> Inl (UnresolvedMemory tid m))"

text \<open>
  Modelled from the spec: step (b) on one task: verify every pre-action event of the
  task is marked satisfied; if not, fail with \<open>UnresolvedEvent\<close>.
\<close>

fun check_events :: "'b BindingState \<Rightarrow> NvU16 \<Rightarrow> NvU16 list \<Rightarrow> error + unit" where
  "check_events bs tid [] = Inr ()"
| "check_events bs tid (ev # evs) =
     (if bs_events bs ev then check_events bs tid evs else Inl (UnresolvedEvent tid ev))"

text \<open>
  Modelled from the spec: step (b): verify every pre-action event referenced by those
  tasks is marked satisfied, task after task in list order.
\<close>

fun check_preactions :: "'b BindingState \<Rightarrow> (NvU16 \<times> TaskListEntry) list \<Rightarrow> error + unit" where
  "check_preactions bs [] = Inr ()"
| "check_preactions bs ((tid, t) # ts) =
     (case check_events bs tid (tle_preactions t) of
        Inl e \<Rightarrow> Inl e
      | Inr u \<Rightarrow> check_preactions bs ts)"

text \<open>
  Modelled from the spec: the dispatch of one task: its target interface and its instance
  selector name the engine queue.
\<close>

definition dispatch_of :: "NvU16 \<times> TaskListEntry \<Rightarrow> Dispatch" where
  "dispatch_of p =
     \<lparr>dsp_interface = tle_interface (snd p), dsp_instance = tle_instance (snd p),
      dsp_task = fst p\<rparr>"

text \<open>
  Modelled from the spec: step (c): dispatch each task to the engine queue matching its
  target interface and instance selector, in list order.
\<close>

definition dispatch_all :: "(NvU16 \<times> TaskListEntry) list \<Rightarrow> 'b SubmitterState \<Rightarrow> 'b SubmitterState" where
  "dispatch_all ts st = st\<lparr>st_dispatched := st_dispatched st @ map dispatch_of ts\<rparr>"

text \<open>
  Modelled from the spec: the submitter on one \<open>SubmitListEntry\<close>: steps (a), (b) and
  (c) in this order, each over all the tasks of the list. The result is the status and
  the state after the call; a failed submit dispatches nothing.
\<close>

definition submit_entry ::
  "('i, 'f, 't, 'g, 'p, 'm) Loadable \<Rightarrow> 'b SubmitterState \<Rightarrow> SubmitListEntry \<Rightarrow>
   (error + unit) \<times> 'b SubmitterState" where
  "submit_entry L st s =
     (case lookup_tasks L (sle_tasks s) of
        Inl e \<Rightarrow> (Inl e, st)
      | Inr ts \<Rightarrow>
          (case check_unsatisfied (st_binding st) ts of
             Inl e \<Rightarrow> (Inl e, st)
           | Inr u \<Rightarrow>
               (case check_preactions (st_binding st) ts of
                  Inl e \<Rightarrow> (Inl e, st)
                | Inr u' \<Rightarrow> (Inr (), dispatch_all ts st))))"

text \<open>
  Modelled from the spec: the submitter over a list of submit entries, in order; the
  first entry that fails ends the run.
\<close>

fun submit_entries ::
  "('i, 'f, 't, 'g, 'p, 'm) Loadable \<Rightarrow> 'b SubmitterState \<Rightarrow> SubmitListEntry list \<Rightarrow>
   (error + unit) \<times> 'b SubmitterState" where
  "submit_entries L st [] = (Inr (), st)"
| "submit_entries L st (s # ss) =
     (case submit_entry L st s of
        (Inl e, st') \<Rightarrow> (Inl e, st')
      | (Inr u, st') \<Rightarrow> submit_entries L st' ss)"

text \<open>
  Modelled from the spec: the submitter over the submit table of the loadable, in table
  order.
\<close>

definition submit ::
  "('i, 'f, 't, 'g, 'p, 'm) Loadable \<Rightarrow> 'b SubmitterState \<Rightarrow> (error + unit) \<times> 'b SubmitterState" where
  "submit L st = submit_entries L st (ld_submit_list L)"

text \<open>
  Modelled from the spec: a task is eligible when it is a task of the table, its
  unsatisfied-reference set is empty and all its pre-action events are satisfied.
\<close>

definition eligible ::
  "('i, 'f, 't, 'g, 'p, 'm) Loadable \<Rightarrow> 'b BindingState \<Rightarrow> NvU16 \<Rightarrow> bool" where
  "eligible L bs tid =
     (case getTaskListEntry L tid of
        Inl e \<Rightarrow> False
      | Inr t \<Rightarrow> bs_unsatisfied bs tid = [] \<and> list_all (bs_events bs) (tle_preactions t))"

text \<open>
  Modelled from the spec: the dispatches of a submit entry whose tasks are all in the
  table, one per task id, in list order.
\<close>

definition dispatches_of ::
  "('i, 'f, 't, 'g, 'p, 'm) Loadable \<Rightarrow> NvU16 list \<Rightarrow> Dispatch list" where
  "dispatches_of L tids =
     map (\<lambda>tid. \<lparr>dsp_interface = tle_interface (ld_task_list L ! unat tid),
                  dsp_instance = tle_instance (ld_task_list L ! unat tid),
                  dsp_task = tid\<rparr>) tids"

section \<open>A sample loadable\<close>

text \<open>
  Sample values for the macros, and the loadable of the spec's first scenario: one
  memory entry of 1024 bytes flagged \<open>ALLOC|INPUT\<close> with \<open>bind_id\<close> 0, one address
  entry over all of it, one task on \<open>DLA1\<close> with no actions, one submit entry naming the
  task. Then two submitter states with nothing dispatched yet: in \<open>st_resolved\<close> memory
  0 has its buffer and no task misses anything, in \<open>st_unbound\<close> no buffer was supplied
  and task 0 still misses memory 0.
\<close>

definition macros_sample :: NvDlaLoadableMacros where
  "macros_sample =
     \<lparr>NVDLA_LOADABLE_INTERFACE_NONE = 0, NVDLA_LOADABLE_INTERFACE_DLA1 = 1,
      NVDLA_LOADABLE_MEMORY_DOMAIN_SYSMEM = 0, NVDLA_LOADABLE_MEMORY_DOMAIN_SRAM = 1,
      NVDLA_LOADABLE_MEMORY_FLAGS_NONE = 0, NVDLA_LOADABLE_MEMORY_FLAGS_ALLOC = 1,
      NVDLA_LOADABLE_MEMORY_FLAGS_SET = 2, NVDLA_LOADABLE_MEMORY_FLAGS_INPUT = 4,
      NVDLA_LOADABLE_MEMORY_FLAGS_OUTPUT = 8,
      NVDLA_LOADABLE_EVENT_OP_WAIT = 0, NVDLA_LOADABLE_EVENT_OP_SIGNAL = 1\<rparr>"

definition ld_scenario :: "(int, NvU8, NvU8, NvU8, NvU8, NvU8) Loadable" where
  "ld_scenario =
     \<lparr>ld_blob = \<lparr>blob_name = ''scenario'', blob_size = 0, blob_interface = Interface_DLA1,
                 blob_version = Version_default\<rparr>,
      ld_memory_list =
        [MemoryListEntry_default
           \<lparr>mle_size := 1024,
            mle_flags := flags_alloc macros_sample OR flags_input macros_sample\<rparr>],
      ld_event_list = [],
      ld_task_list =
        [\<lparr>tle_id = 0, tle_interface = interface_DLA1 macros_sample,
          tle_instance = instance_ANY, tle_preactions = [], tle_postactions = [],
          tle_address_list = [0]\<rparr>],
      ld_address_list = [AddressListEntry_default\<lparr>ale_size := 1024\<rparr>],
      ld_tensor_desc_list = [],
      ld_submit_list = [\<lparr>sle_id = 0, sle_tasks = [0]\<rparr>]\<rparr>"

definition st_resolved :: "nat SubmitterState" where
  "st_resolved =
     \<lparr>st_binding =
        \<lparr>bs_buffers = (\<lambda>m. if m = 0 then Some 0 else None),
         bs_events = (\<lambda>ev. False),
         bs_unsatisfied = (\<lambda>tid. [])\<rparr>,
      st_dispatched = []\<rparr>"

definition st_unbound :: "nat SubmitterState" where
  "st_unbound =
     \<lparr>st_binding =
        \<lparr>bs_buffers = (\<lambda>m. None),
         bs_events = (\<lambda>ev. False),
         bs_unsatisfied = (\<lambda>tid. if tid = 0 then [0] else [])\<rparr>,
      st_dispatched = []\<rparr>"

text \<open>
  A loadable with two tasks and one event: task 0 has no pre-action, task 1 waits for
  event 0; one submit entry names both. In \<open>st_waiting\<close> every reference is resolved
  and event 0 is not satisfied; in \<open>st_signalled\<close> it is.
\<close>

definition ld_pair :: "(int, NvU8, NvU8, NvU8, NvU8, NvU8) Loadable" where
  "ld_pair =
     ld_scenario
       \<lparr>ld_event_list :=
          [\<lparr>ele_id = 0, ele_target = 0, ele_op = op_signal macros_sample, ele_val = 0\<rparr>],
        ld_task_list :=
          [\<lparr>tle_id = 0, tle_interface = interface_DLA1 macros_sample,
            tle_instance = instance_ANY, tle_preactions = [], tle_postactions = [0],
            tle_address_list = [0]\<rparr>,
           \<lparr>tle_id = 1, tle_interface = interface_DLA1 macros_sample,
            tle_instance = 0, tle_preactions = [0], tle_postactions = [],
            tle_address_list = [0]\<rparr>],
        ld_submit_list := [\<lparr>sle_id = 0, sle_tasks = [0, 1]\<rparr>]\<rparr>"

definition st_waiting :: "nat SubmitterState" where
  "st_waiting = st_resolved"

definition st_signalled :: "nat SubmitterState" where
  "st_signalled =
     st_resolved\<lparr>st_binding := (st_binding st_resolved)\<lparr>bs_events := (\<lambda>ev. ev = 0)\<rparr>\<rparr>"

section \<open>The conversions and constructors of the header\<close>

text \<open>
  \<open>fromC\<close> after \<open>toC\<close> gives the entry back with its \<open>mem_id\<close> replaced by its \<open>id\<close>,
  whatever the wire struct and the entry written into held before: every other member
  goes through both conversions unchanged.
\<close>

lemma TensorDescListEntry_fromC_toC:
  "TensorDescListEntry_fromC (TensorDescListEntry_toC e c) this = e\<lparr>tde_mem_id := tde_id e\<rparr>"
  by (cases e, cases this, cases c, cases "tde_dims e", cases "tde_dims this", cases "ctde_dims c")
     (simp add: TensorDescListEntry_fromC_def TensorDescListEntry_toC_def)

lemma TensorDescListEntry_roundtrip_iff:
  "TensorDescListEntry_fromC (TensorDescListEntry_toC e c) this = e \<longleftrightarrow> tde_mem_id e = tde_id e"
  by (cases e) (auto simp add: TensorDescListEntry_fromC_toC)

text \<open>
  C1. The round trip of a \<open>TensorDescListEntry\<close> through \<open>toC\<close> and \<open>fromC\<close> is claimed
  to give an entry equal field for field to the original, \<open>mem_id\<close> included. The source
  runs otherwise at \<open>tde_sample\<close>, whose \<open>id\<close> is 1 and whose \<open>mem_id\<close> is 2: \<open>toC\<close>
  writes the \<open>id\<close> into the wire struct's \<open>mem_id\<close>, so the entry read back has
  \<open>mem_id\<close> 1 and differs from the original.
\<close>

theorem TensorDescListEntry_roundtrip_loses_mem_id:
  "tde_id tde_sample = 1 \<and> tde_mem_id tde_sample = 2 \<and>
   ctde_mem_id (TensorDescListEntry_toC tde_sample ctde_blank) = 1 \<and>
   tde_mem_id (TensorDescListEntry_fromC (TensorDescListEntry_toC tde_sample ctde_blank) tde_blank) = 1 \<and>
   TensorDescListEntry_fromC (TensorDescListEntry_toC tde_sample ctde_blank) tde_blank \<noteq> tde_sample"
  by (simp add: TensorDescListEntry_fromC_def TensorDescListEntry_toC_def tde_sample_def
      ctde_blank_def tde_blank_def)

text \<open>
  C8. A default-constructed \<open>MemoryListEntry\<close> has \<open>bind_id\<close> 0, \<open>tensor_desc_id\<close> 0
  and \<open>flags\<close> 0: neither id is the out-of-range value 0xFFFF, which is \<open>-1\<close> as an
  \<open>NvU16\<close>. Whatever the values of the flag macros, the entry carries neither the
  \<open>INPUT\<close> nor the \<open>OUTPUT\<close> flag, and its \<open>bind_id\<close> is the \<open>bind_id\<close> of an entry
  flagged \<open>INPUT\<close> and bound to id 0: only the flags tell the two apart.
\<close>

theorem MemoryListEntry_default_bind_id_zero:
  "mle_bind_id MemoryListEntry_default = 0 \<and>
   mle_tensor_desc_id MemoryListEntry_default = 0 \<and>
   mle_flags MemoryListEntry_default = 0 \<and>
   mle_bind_id MemoryListEntry_default \<noteq> 0xFFFF \<and>
   mle_bind_id MemoryListEntry_default \<noteq> - 1 \<and>
   mle_tensor_desc_id MemoryListEntry_default \<noteq> 0xFFFF \<and>
   mle_tensor_desc_id MemoryListEntry_default \<noteq> - 1 \<and>
   mle_flags MemoryListEntry_default AND flags_input K = 0 \<and>
   mle_flags MemoryListEntry_default AND flags_output K = 0 \<and>
   mle_bind_id MemoryListEntry_default =
     mle_bind_id (MemoryListEntry_default\<lparr>mle_flags := flags_input K, mle_bind_id := 0\<rparr>)"
  by (simp add: MemoryListEntry_default_def)

text \<open>
  C9. \<open>toC\<close> of \<open>Version\<close>, \<open>EventListEntry\<close> and \<open>AddressListEntry\<close> copies each field
  unchanged into the member of the wire struct it is assigned to, whatever the struct
  held before, and each of the three conversions is injective: two values have the same
  image exactly when they are equal.
\<close>

theorem toC_copies_fields:
  "cver_major (Version_toC v cv) = ver_major v \<and>
   cver_minor (Version_toC v cv) = ver_minor v \<and>
   cver_subMinor (Version_toC v cv) = ver_sub_minor v \<and>
   cele_id (EventListEntry_toC e ce) = ele_id e \<and>
   cele_target (EventListEntry_toC e ce) = ele_target e \<and>
   cele_op (EventListEntry_toC e ce) = ele_op e \<and>
   cele_val (EventListEntry_toC e ce) = ele_val e \<and>
   cale_id (AddressListEntry_toC a ca) = ale_id a \<and>
   cale_memId (AddressListEntry_toC a ca) = ale_mem_id a \<and>
   cale_size (AddressListEntry_toC a ca) = ale_size a \<and>
   cale_offset (AddressListEntry_toC a ca) = ale_offset a \<and>
   (Version_toC v cv = Version_toC v' cv') = (v = v') \<and>
   (EventListEntry_toC e ce = EventListEntry_toC e' ce') = (e = e') \<and>
   (AddressListEntry_toC a ca = AddressListEntry_toC a' ca') = (a = a')"
  by (cases v, cases v', cases cv, cases cv', cases e, cases e', cases ce, cases ce',
      cases a, cases a', cases ca, cases ca')
     (simp add: Version_toC_def EventListEntry_toC_def AddressListEntry_toC_def)

text \<open>
  C10. The copy constructor of \<open>MemoryListEntry\<close> gives an entry equal to the source
  field for field; the two vectors of the copy have the length of the source's and the
  same element at every index. The copy is a value of its own: it holds the elements,
  not a reference into the source.
\<close>

theorem MemoryListEntry_copy_fieldwise:
  "MemoryListEntry_copy o' = o' \<and>
   mle_id (MemoryListEntry_copy o') = mle_id o' \<and>
   mle_size (MemoryListEntry_copy o') = mle_size o' \<and>
   mle_alignment (MemoryListEntry_copy o') = mle_alignment o' \<and>
   mle_domain (MemoryListEntry_copy o') = mle_domain o' \<and>
   mle_flags (MemoryListEntry_copy o') = mle_flags o' \<and>
   mle_bind_id (MemoryListEntry_copy o') = mle_bind_id o' \<and>
   mle_tensor_desc_id (MemoryListEntry_copy o') = mle_tensor_desc_id o' \<and>
   mle_contents (MemoryListEntry_copy o') = mle_contents o' \<and>
   mle_offsets (MemoryListEntry_copy o') = mle_offsets o' \<and>
   length (mle_contents (MemoryListEntry_copy o')) = length (mle_contents o') \<and>
   (\<forall>i. mle_contents (MemoryListEntry_copy o') ! i = mle_contents o' ! i) \<and>
   length (mle_offsets (MemoryListEntry_copy o')) = length (mle_offsets o') \<and>
   (\<forall>i. mle_offsets (MemoryListEntry_copy o') ! i = mle_offsets o' ! i)"
  by (cases o') (simp add: MemoryListEntry_copy_def)

section \<open>The accessors\<close>

lemma table_get_out_of_range:
  "length xs \<le> unat i \<Longrightarrow> table_get T xs i = Inl (NotFound T i)"
  by (simp add: table_get_def)

lemma table_get_in_range:
  "unat i < length xs \<Longrightarrow> table_get T xs i = Inr (xs ! unat i)"
  by (simp add: table_get_def)

text \<open>
  In the model, an accessor returns the entry at the index inside the declared range, and
  \<open>table_get\<close> fails outside of it.
\<close>

lemma getMemoryListEntry_in_range:
  "unat i < length (ld_memory_list L) \<Longrightarrow> getMemoryListEntry L i = Inr (ld_memory_list L ! unat i)"
  by (cases "ld_memory_list L ! unat i")
     (simp add: getMemoryListEntry_def table_get_def MemoryListEntry_copy_def)

lemma getAddressListEntry_in_range:
  "unat i < length (ld_address_list L) \<Longrightarrow> getAddressListEntry L i = Inr (ld_address_list L ! unat i)"
  by (simp add: getAddressListEntry_def table_get_def)

section \<open>The submitter on one submit entry\<close>

lemma getTaskListEntry_Inr:
  "unat tid < length (ld_task_list L) \<Longrightarrow> getTaskListEntry L tid = Inr (ld_task_list L ! unat tid)"
  by (simp add: getTaskListEntry_def table_get_def)

lemma getTaskListEntry_Inl:
  "\<not> unat tid < length (ld_task_list L) \<Longrightarrow> getTaskListEntry L tid = Inl (NotFound TaskTable tid)"
  by (simp add: getTaskListEntry_def table_get_def)

lemma lookup_tasks_all:
  "list_all (\<lambda>tid. unat tid < length (ld_task_list L)) tids \<Longrightarrow>
   lookup_tasks L tids = Inr (map (\<lambda>tid. (tid, ld_task_list L ! unat tid)) tids)"
  by (induction tids) (simp_all add: getTaskListEntry_Inr)

lemma lookup_tasks_some_missing:
  "\<not> list_all (\<lambda>tid. unat tid < length (ld_task_list L)) tids \<Longrightarrow>
   \<exists>e. lookup_tasks L tids = Inl e"
proof (induction tids)
  case Nil
  then show ?case by simp
next
  case (Cons tid tids)
  show ?case
  proof (cases "unat tid < length (ld_task_list L)")
    case True
    with Cons obtain e where "lookup_tasks L tids = Inl e" by auto
    with True show ?thesis by (simp add: getTaskListEntry_Inr)
  next
    case False
    then show ?thesis by (simp add: getTaskListEntry_Inl)
  qed
qed

lemma check_unsatisfied_all:
  "list_all (\<lambda>p. bs_unsatisfied bs (fst p) = []) ts \<Longrightarrow> check_unsatisfied bs ts = Inr ()"
  by (induction bs ts rule: check_unsatisfied.induct) simp_all

lemma check_unsatisfied_some:
  "\<not> list_all (\<lambda>p. bs_unsatisfied bs (fst p) = []) ts \<Longrightarrow> \<exists>e. check_unsatisfied bs ts = Inl e"
  by (induction bs ts rule: check_unsatisfied.induct) (auto split: list.splits)

lemma check_events_all:
  "list_all (bs_events bs) evs \<Longrightarrow> check_events bs tid evs = Inr ()"
  by (induction evs) simp_all

lemma check_events_some:
  "\<not> list_all (bs_events bs) evs \<Longrightarrow> \<exists>e. check_events bs tid evs = Inl e"
  by (induction evs) auto

lemma check_preactions_all:
  "list_all (\<lambda>p. list_all (bs_events bs) (tle_preactions (snd p))) ts \<Longrightarrow>
   check_preactions bs ts = Inr ()"
  by (induction bs ts rule: check_preactions.induct) (simp_all add: check_events_all)

lemma check_preactions_some:
  "\<not> list_all (\<lambda>p. list_all (bs_events bs) (tle_preactions (snd p))) ts \<Longrightarrow>
   \<exists>e. check_preactions bs ts = Inl e"
proof (induction bs ts rule: check_preactions.induct)
  case (1 bs)
  then show ?case by simp
next
  case (2 bs tid t ts)
  show ?case
  proof (cases "list_all (bs_events bs) (tle_preactions t)")
    case True
    then have ev: "check_events bs tid (tle_preactions t) = Inr ()"
      by (rule check_events_all)
    from 2 ev True obtain e where "check_preactions bs ts = Inl e" by auto
    with ev show ?thesis by simp
  next
    case False
    then obtain e where "check_events bs tid (tle_preactions t) = Inl e"
      using check_events_some by blast
    then show ?thesis by simp
  qed
qed

lemma eligible_iff:
  "eligible L bs tid \<longleftrightarrow>
     unat tid < length (ld_task_list L) \<and> bs_unsatisfied bs tid = [] \<and>
     list_all (bs_events bs) (tle_preactions (ld_task_list L ! unat tid))"
  by (cases "unat tid < length (ld_task_list L)")
     (simp_all add: eligible_def getTaskListEntry_Inr getTaskListEntry_Inl)

lemma all_eligible_iff:
  "list_all (eligible L bs) tids \<longleftrightarrow>
     list_all (\<lambda>tid. unat tid < length (ld_task_list L)) tids \<and>
     list_all (\<lambda>p. bs_unsatisfied bs (fst p) = [])
       (map (\<lambda>tid. (tid, ld_task_list L ! unat tid)) tids) \<and>
     list_all (\<lambda>p. list_all (bs_events bs) (tle_preactions (snd p)))
       (map (\<lambda>tid. (tid, ld_task_list L ! unat tid)) tids)"
  by (induction tids) (auto simp add: eligible_iff)

lemma map_dispatch_of:
  "map dispatch_of (map (\<lambda>tid. (tid, ld_task_list L ! unat tid)) tids) = dispatches_of L tids"
  by (simp add: dispatches_of_def dispatch_of_def)

lemma dispatch_all_found:
  "dispatch_all (map (\<lambda>tid. (tid, ld_task_list L ! unat tid)) tids) st =
     st\<lparr>st_dispatched := st_dispatched st @ dispatches_of L tids\<rparr>"
  unfolding dispatch_all_def map_dispatch_of ..

lemma submit_entry_all_eligible:
  assumes "list_all (eligible L (st_binding st)) (sle_tasks s)"
  shows "submit_entry L st s =
           (Inr (), st\<lparr>st_dispatched := st_dispatched st @ dispatches_of L (sle_tasks s)\<rparr>)"
proof -
  let ?ts = "map (\<lambda>tid. (tid, ld_task_list L ! unat tid)) (sle_tasks s)"
  from assms have found: "lookup_tasks L (sle_tasks s) = Inr ?ts"
    and mem: "check_unsatisfied (st_binding st) ?ts = Inr ()"
    and evs: "check_preactions (st_binding st) ?ts = Inr ()"
    by (simp_all add: all_eligible_iff lookup_tasks_all check_unsatisfied_all check_preactions_all)
  then show ?thesis
    by (simp add: submit_entry_def dispatch_all_found)
qed

lemma submit_entry_not_eligible:
  assumes "\<not> list_all (eligible L (st_binding st)) (sle_tasks s)"
  shows "\<exists>e. submit_entry L st s = (Inl e, st)"
proof (cases "lookup_tasks L (sle_tasks s)")
  case (Inl e)
  then show ?thesis by (simp add: submit_entry_def)
next
  case (Inr ts)
  let ?ts = "map (\<lambda>tid. (tid, ld_task_list L ! unat tid)) (sle_tasks s)"
  have inrange: "list_all (\<lambda>tid. unat tid < length (ld_task_list L)) (sle_tasks s)"
    using Inr lookup_tasks_some_missing by fastforce
  then have ts: "lookup_tasks L (sle_tasks s) = Inr ?ts"
    by (rule lookup_tasks_all)
  show ?thesis
  proof (cases "check_unsatisfied (st_binding st) ?ts")
    case (Inl e)
    with ts show ?thesis by (simp add: submit_entry_def)
  next
    case mem: (Inr u)
    then have m: "list_all (\<lambda>p. bs_unsatisfied (st_binding st) (fst p) = []) ?ts"
      using check_unsatisfied_some by fastforce
    with assms inrange
    have "\<not> list_all (\<lambda>p. list_all (bs_events (st_binding st)) (tle_preactions (snd p))) ?ts"
      by (simp only: all_eligible_iff) simp
    then obtain e where "check_preactions (st_binding st) ?ts = Inl e"
      using check_preactions_some by blast
    with ts mem show ?thesis by (simp add: submit_entry_def)
  qed
qed

text \<open>
  C6. Submission of a \<open>SubmitListEntry\<close> is atomic over its task list. If every task
  the entry names is eligible, the submit succeeds and the dispatches made are those
  before it followed by one per task of the list, in list order. If some task is not
  eligible, the submit fails and the state is the state before it: nothing was
  dispatched. An entry with an empty task list succeeds and leaves the state as it was.
\<close>

theorem submit_entry_atomic:
  "(list_all (eligible L (st_binding st)) (sle_tasks s) \<longrightarrow>
      submit_entry L st s =
        (Inr (), st\<lparr>st_dispatched := st_dispatched st @ dispatches_of L (sle_tasks s)\<rparr>)) \<and>
   (\<not> list_all (eligible L (st_binding st)) (sle_tasks s) \<longrightarrow>
      (\<exists>e. submit_entry L st s = (Inl e, st))) \<and>
   (sle_tasks s = [] \<longrightarrow> submit_entry L st s = (Inr (), st))"
proof (intro conjI impI)
  assume "list_all (eligible L (st_binding st)) (sle_tasks s)"
  then show "submit_entry L st s =
        (Inr (), st\<lparr>st_dispatched := st_dispatched st @ dispatches_of L (sle_tasks s)\<rparr>)"
    by (rule submit_entry_all_eligible)
next
  assume "\<not> list_all (eligible L (st_binding st)) (sle_tasks s)"
  then show "\<exists>e. submit_entry L st s = (Inl e, st)"
    by (rule submit_entry_not_eligible)
next
  assume "sle_tasks s = []"
  then show "submit_entry L st s = (Inr (), st)"
    by (simp add: submit_entry_def dispatch_all_def)
qed

theorem submit_entry_atomic_witness:
  "list_all (eligible ld_pair (st_binding st_signalled)) (sle_tasks \<lparr>sle_id = 0, sle_tasks = [0, 1]\<rparr>) \<and>
   submit_entry ld_pair st_signalled \<lparr>sle_id = 0, sle_tasks = [0, 1]\<rparr> =
     (Inr (), st_signalled\<lparr>st_dispatched :=
        [\<lparr>dsp_interface = 1, dsp_instance = - 1, dsp_task = 0\<rparr>,
         \<lparr>dsp_interface = 1, dsp_instance = 0, dsp_task = 1\<rparr>]\<rparr>) \<and>
   eligible ld_pair (st_binding st_waiting) 0 \<and>
   \<not> list_all (eligible ld_pair (st_binding st_waiting)) (sle_tasks \<lparr>sle_id = 0, sle_tasks = [0, 1]\<rparr>) \<and>
   (\<exists>e. submit_entry ld_pair st_waiting \<lparr>sle_id = 0, sle_tasks = [0, 1]\<rparr> = (Inl e, st_waiting)) \<and>
   sle_tasks \<lparr>sle_id = 1, sle_tasks = []\<rparr> = [] \<and>
   submit_entry ld_pair st_waiting \<lparr>sle_id = 1, sle_tasks = []\<rparr> = (Inr (), st_waiting)"
proof -
  have e0: "eligible ld_pair (st_binding st_signalled) 0" "eligible ld_pair (st_binding st_waiting) 0"
    by (simp_all add: eligible_def getTaskListEntry_def table_get_def ld_pair_def ld_scenario_def
        st_signalled_def st_waiting_def st_resolved_def)
  have e1: "eligible ld_pair (st_binding st_signalled) 1" "\<not> eligible ld_pair (st_binding st_waiting) 1"
    by (simp_all add: eligible_def getTaskListEntry_def table_get_def ld_pair_def ld_scenario_def
        st_signalled_def st_waiting_def st_resolved_def)
  have d: "dispatches_of ld_pair [0, 1] =
      [\<lparr>dsp_interface = 1, dsp_instance = - 1, dsp_task = 0\<rparr>,
       \<lparr>dsp_interface = 1, dsp_instance = 0, dsp_task = 1\<rparr>]"
    by (simp add: dispatches_of_def ld_pair_def ld_scenario_def interface_DLA1_def macros_sample_def
        instance_ANY_def)
  have dd: "st_dispatched st_signalled = []"
    by (simp add: st_signalled_def st_resolved_def)
  show ?thesis
    using e0 e1 d dd
      submit_entry_atomic [of ld_pair st_signalled "\<lparr>sle_id = 0, sle_tasks = [0, 1]\<rparr>"]
      submit_entry_atomic [of ld_pair st_waiting "\<lparr>sle_id = 0, sle_tasks = [0, 1]\<rparr>"]
      submit_entry_atomic [of ld_pair st_waiting "\<lparr>sle_id = 1, sle_tasks = []\<rparr>",
        THEN conjunct2, THEN conjunct2]
    by simp
qed

text \<open>
  The spec's two scenarios on the sample loadable: with the buffer supplied, the submit
  table puts task 0 on the queue of \<open>DLA1\<close>, any instance, once; with the buffer
  omitted the submit fails naming task 0 and memory 0, and nothing is dispatched.
\<close>

lemma scenario_unbound_error:
  "submit ld_scenario st_unbound = (Inl (UnresolvedMemory 0 0), st_unbound)"
  by (simp add: submit_def submit_entry_def getTaskListEntry_def table_get_def ld_scenario_def st_unbound_def)

lemma scenario_resolved_dispatch:
  "engine_queue (snd (submit ld_scenario st_resolved)) (interface_DLA1 macros_sample) instance_ANY = [0]"
  by (simp add: submit_def submit_entry_def getTaskListEntry_def table_get_def ld_scenario_def st_resolved_def
     check_unsatisfied.simps dispatch_all_def dispatch_of_def engine_queue_def)

text \<open>
  On the loadable with two tasks: while event 0 is not satisfied the submit fails with
  \<open>UnresolvedEvent\<close> naming task 1 and event 0, and task 0, which is eligible, is not
  dispatched either; once event 0 is satisfied both tasks are dispatched, in list order.
\<close>

lemma pair_waiting_nothing_dispatched:
  "submit ld_pair st_waiting = (Inl (UnresolvedEvent 1 0), st_waiting)"
  by (simp add: submit_def submit_entry_def getTaskListEntry_def table_get_def ld_pair_def
      ld_scenario_def st_waiting_def st_resolved_def)

lemma pair_signalled_both_dispatched:
  "fst (submit ld_pair st_signalled) = Inr () \<and>
   st_dispatched (snd (submit ld_pair st_signalled)) =
     [\<lparr>dsp_interface = 1, dsp_instance = - 1, dsp_task = 0\<rparr>,
      \<lparr>dsp_interface = 1, dsp_instance = 0, dsp_task = 1\<rparr>]"
  by (simp add: submit_def submit_entry_def getTaskListEntry_def table_get_def ld_pair_def
      ld_scenario_def st_signalled_def st_resolved_def dispatch_all_def dispatch_of_def
      interface_DLA1_def macros_sample_def instance_ANY_def)

end
